theory Spec2Isabelle
  imports Complex_Main
begin

section \<open>The error-event redaction hook of \<^verbatim>\<open>next.config.ts\<close>\<close>

text \<open>
  The monitoring SDK's event type is declared outside the repository. The hook reads only
  \<^verbatim>\<open>event.request\<close> and \<^verbatim>\<open>event.request.headers\<close>, so both objects are extensible records:
  the fields the hook never names are the record's extension part, of any type. An optional
  property is an \<open>option\<close> (\<open>None\<close> is \<^verbatim>\<open>undefined\<close>).

  The header object is typed \<^verbatim>\<open>{ [key: string]: string }\<close>. Its own properties are a map
  from header names to values. The type also admits a frozen or sealed object, or one with
  single properties defined as non-configurable: \<open>nonConfigurable\<close> holds the names whose
  property, when present, cannot be deleted (every name, for a frozen or sealed object; none,
  for an ordinary object literal).
\<close>

record headerObject =
  entries :: "string \<rightharpoonup> string"
  nonConfigurable :: "string set"

record request =
  headers :: "headerObject option"

record 'r event =
  request :: "'r request_scheme option"

text \<open>Reading a property of \<^verbatim>\<open>undefined\<close>, or deleting from it, throws; so does deleting a
  non-configurable own property in strict-mode code, which a module is.\<close>

datatype error = TypeError

definition nonConfigurableOwn :: "headerObject \<Rightarrow> string \<Rightarrow> bool" where
  "nonConfigurableOwn obj key = (entries obj key \<noteq> None \<and> key \<in> nonConfigurable obj)"

text \<open>\<^verbatim>\<open>delete obj[key]\<close> in strict mode: an absent key is left alone, a configurable own
  property is removed, and a non-configurable own property makes the operator throw.\<close>

definition deleteKey :: "headerObject \<Rightarrow> string \<Rightarrow> error + headerObject" where
  "deleteKey obj key =
     (if nonConfigurableOwn obj key then Inl TypeError
      else Inr (obj\<lparr>entries := (entries obj)(key := None)\<rparr>))"

text \<open>
  \<^verbatim>\<open>
  beforeSend(event: Event): Event {
    if (event.request?.headers) {
      const headers = event.request.headers
      delete headers["Authorization"]
      delete headers["Cookie"]
    }
    return event
  }
  \<close>
  The guard uses optional chaining, so it is \<^verbatim>\<open>undefined\<close> (falsy) when either object is
  absent, and an object (truthy) otherwise. Inside the branch the chain is read again without
  \<^verbatim>\<open>?.\<close>; the model keeps the throwing cases of that read. The deletions mutate the header
  object that the event holds, so the returned event carries the reduced object. A deletion
  that throws ends the call: the second deletion and the \<^verbatim>\<open>return\<close> are not reached, and the
  caller receives the exception instead of an event.
\<close>

definition beforeSend :: "('r, 'z) event_scheme \<Rightarrow> error + ('r, 'z) event_scheme" where
  "beforeSend event =
     (case Option.bind (request event) headers of
        None \<Rightarrow> Inr event
      | Some _ \<Rightarrow>
          (case request event of
             None \<Rightarrow> Inl TypeError
           | Some req \<Rightarrow>
               (case headers req of
                  None \<Rightarrow> Inl TypeError
                | Some hdrs \<Rightarrow>
                    (case deleteKey hdrs ''Authorization'' of
                       Inl err \<Rightarrow> Inl err
                     | Inr hdrs1 \<Rightarrow>
                         (case deleteKey hdrs1 ''Cookie'' of
                            Inl err \<Rightarrow> Inl err
                          | Inr hdrs2 \<Rightarrow>
                              Inr (event\<lparr>request :=
                                Some (req\<lparr>headers := Some hdrs2\<rparr>)\<rparr>))))))"

text \<open>One call after another: the second call runs on the event the first one returned, and
  an exception of the first call ends the sequence.\<close>

definition andThen :: "error + 'a \<Rightarrow> ('a \<Rightarrow> error + 'b) \<Rightarrow> error + 'b" where
  "andThen r f = (case r of Inl err \<Rightarrow> Inl err | Inr v \<Rightarrow> f v)"

section \<open>The build configuration of \<^verbatim>\<open>next.config.ts\<close>\<close>

text \<open>
  \<^verbatim>\<open>process.env\<close> maps variable names to strings; an unset variable reads as
  \<^verbatim>\<open>undefined\<close>. \<^verbatim>\<open>Date.now()\<close> is the second input of the module: the clock reading in
  milliseconds, an integer.
\<close>

type_synonym processEnv = "string \<rightharpoonup> string"

text \<open>Truthiness of a value that is a string or \<^verbatim>\<open>undefined\<close>: only the empty string and
  \<^verbatim>\<open>undefined\<close> are falsy.\<close>

definition truthy :: "string option \<Rightarrow> bool" where
  "truthy v = (case v of None \<Rightarrow> False | Some s \<Rightarrow> s \<noteq> [])"

text \<open>Decimal rendering of an integer, as a template literal interpolates it.\<close>

definition digitChar :: "nat \<Rightarrow> char" where
  "digitChar d = ''0123456789'' ! d"

fun natToString :: "nat \<Rightarrow> string" where
  "natToString n =
     (if n < 10 then [digitChar n] else natToString (n div 10) @ [digitChar (n mod 10)])"

declare natToString.simps [simp del]

definition numberToString :: "int \<Rightarrow> string" where
  "numberToString i =
     (if i < 0 then CHR ''-'' # natToString (nat (- i)) else natToString (nat i))"

text \<open>\<^verbatim>\<open>removeConsole\<close> is either \<^verbatim>\<open>false\<close> or an object listing the excluded methods.\<close>

datatype removeConsoleOption = RemoveConsoleFalse | RemoveConsoleExclude "string list"

record CompilerOptions =
  removeConsole :: removeConsoleOption

record RemotePattern =
  protocol :: string
  hostname :: string

record ImagesConfig =
  remotePatterns :: "RemotePattern list"
  formats :: "string list"
  deviceSizes :: "int list"
  minimumCacheTTL :: int

record OptimizeCssOptions =
  extractCritical :: bool
  inlineCritical :: bool

record ServerActionsOptions =
  bodySizeLimit :: string

record ExperimentalConfig =
  optimizePackageImports :: "string list"
  optimizeCss :: OptimizeCssOptions
  serverActions :: ServerActionsOptions

record OnDemandEntries =
  maxInactiveAge :: int
  pagesBufferLength :: int

text \<open>\<^verbatim>\<open>env\<close> is an object literal; its keys are kept in source order as an association list.
  The field \<^verbatim>\<open>output\<close> is named \<open>output_opt\<close>: \<^verbatim>\<open>undefined\<close> is \<open>None\<close>.\<close>

record NextConfig =
  output_opt :: "string option"
  trailingSlash :: bool
  reactStrictMode :: bool
  compiler :: CompilerOptions
  images :: ImagesConfig
  env :: "(string \<times> string) list"
  experimental :: ExperimentalConfig
  compress :: bool
  transpilePackages :: "string list"
  productionBrowserSourceMaps :: bool
  poweredByHeader :: bool
  onDemandEntries :: OnDemandEntries
  pageExtensions :: "string list"

definition isMobileBuild :: "processEnv \<Rightarrow> bool" where
  "isMobileBuild penv = (penv ''BUILD_TARGET'' = Some ''mobile'')"

definition nextConfig :: "processEnv \<Rightarrow> int \<Rightarrow> NextConfig" where
  "nextConfig penv now =
     \<lparr> output_opt = (if isMobileBuild penv then Some ''export'' else None),
       trailingSlash = isMobileBuild penv,
       reactStrictMode = True,
       compiler =
         \<lparr> removeConsole =
             (if penv ''NODE_ENV'' = Some ''production''
              then RemoveConsoleExclude [''error'', ''warn'']
              else RemoveConsoleFalse) \<rparr>,
       images =
         \<lparr> remotePatterns =
             [ \<lparr> protocol = ''https'', hostname = ''gateway.mesh3.network'' \<rparr>,
               \<lparr> protocol = ''https'', hostname = ''gateway.lighthouse.storage'' \<rparr>,
               \<lparr> protocol = ''https'', hostname = ''assets.react-photo-album.com'' \<rparr>,
               \<lparr> protocol = ''https'', hostname = ''lh3.googleusercontent.com'' \<rparr>,
               \<lparr> protocol = ''https'', hostname = ''cdn.discordapp.com'' \<rparr>,
               \<lparr> protocol = ''https'', hostname = ''r2.unreal.art'' \<rparr>,
               \<lparr> protocol = ''https'',
                 hostname = ''pub-bc2d2d9bc6fb490dbb380efd5781048d.r2.dev'' \<rparr> ],
           formats = [''image/avif'', ''image/webp''],
           deviceSizes = [640, 750, 828, 1080, 1200, 1920, 2048, 3840],
           minimumCacheTTL = 60 * 60 * 24 * 30 \<rparr>,
       env =
         [ (''NEXT_PUBLIC_BUILD_VERSION'', ''1.0.0-'' @ numberToString now),
           (''NEXT_PUBLIC_R2_STORAGE_URL'', ''https://r2.unreal.art''),
           (''NEXT_PUBLIC_LIGHTHOUSE_GATE_WAY'', ''https://gateway.lighthouse.storage/ipfs/''),
           (''NEXT_PUBLIC_DEBUG'',
              if penv ''NODE_ENV'' = Some ''development'' then ''true'' else ''false'') ],
       experimental =
         \<lparr> optimizePackageImports =
             [ ''react-multi-carousel'', ''framer-motion'', ''gsap'', ''lodash'', ''swiper'',
               ''react-loading-skeleton'', ''react-icons'', ''recharts'', ''@tremor/react'' ],
           optimizeCss = \<lparr> extractCritical = True, inlineCritical = True \<rparr>,
           serverActions = \<lparr> bodySizeLimit = ''2mb'' \<rparr> \<rparr>,
       compress = True,
       transpilePackages = [''gsap'', ''three'', ''react-share''],
       productionBrowserSourceMaps = False,
       poweredByHeader = False,
       onDemandEntries = \<lparr> maxInactiveAge = 60 * 60 * 1000, pagesBufferLength = 5 \<rparr>,
       pageExtensions = [''tsx'', ''ts'', ''jsx'', ''js'', ''mdx''] \<rparr>"

subsection \<open>The monitoring plugin options\<close>

text \<open>The sampling rates are the decimal literals of the source, read as exact fractions.\<close>

record SentryRelease =
  name :: "string option"
  create :: bool
  finalize :: bool

record ('r, 'z) SentryOptions =
  silent :: bool
  org :: string
  project :: string
  tracesSampleRate :: real
  replaysSessionSampleRate :: real
  replaysOnErrorSampleRate :: real
  attachStacktrace :: bool
  normalizeDepth :: int
  release :: SentryRelease
  widenClientFileUpload :: bool
  tunnelRoute :: string
  disableLogger :: bool
  automaticVercelMonitors :: bool
  disableFeedbackButton :: bool
  maxBreadcrumbs :: int
  beforeSendMethod :: "('r, 'z) event_scheme \<Rightarrow> error + ('r, 'z) event_scheme"

definition sentryWebpackPluginOptions :: "processEnv \<Rightarrow> ('r, 'z) SentryOptions" where
  "sentryWebpackPluginOptions penv =
     \<lparr> silent = (\<not> truthy (penv ''CI'')),
       org = ''unreal-decenterai'',
       project = ''unreal'',
       tracesSampleRate = (if penv ''NODE_ENV'' = Some ''production'' then 0.2 else 1.0),
       replaysSessionSampleRate = 0.1,
       replaysOnErrorSampleRate = 1.0,
       attachStacktrace = True,
       normalizeDepth = 10,
       release =
         \<lparr> name = penv ''NEXT_PUBLIC_BUILD_VERSION'', create = True, finalize = True \<rparr>,
       widenClientFileUpload = True,
       tunnelRoute = ''/monitoring'',
       disableLogger = True,
       automaticVercelMonitors = True,
       disableFeedbackButton = True,
       maxBreadcrumbs = 50,
       beforeSendMethod = beforeSend \<rparr>"

text \<open>
  The module's default export is \<^verbatim>\<open>withSentryConfig(nextConfig, sentryWebpackPluginOptions)\<close>.
  The wrapper belongs to the monitoring SDK; what this module contributes to it is the
  pair of its arguments.
\<close>

definition exportedConfig ::
    "processEnv \<Rightarrow> int \<Rightarrow> NextConfig \<times> ('r, 'z) SentryOptions" where
  "exportedConfig penv now = (nextConfig penv now, sentryWebpackPluginOptions penv)"

text \<open>The names that \<^verbatim>\<open>nextConfig.env\<close> injects into the client bundle.\<close>

definition clientInjections :: "NextConfig \<Rightarrow> string list" where
  "clientInjections cfg = map fst (env cfg)"

subsection \<open>Remote images\<close>

text \<open>
  Modelled from the spec: the framework's matcher of remote patterns is not part of this
  repository. The spec's glossary reads a remote pattern as an allow-list entry, protocol
  plus hostname, that permits fetching from that origin; every hostname of this
  configuration is a literal, so an entry permits exactly its own protocol and hostname.
\<close>

definition matchRemotePattern :: "RemotePattern \<Rightarrow> string \<Rightarrow> string \<Rightarrow> bool" where
  "matchRemotePattern pat proto host = (protocol pat = proto \<and> hostname pat = host)"

definition remoteImagePermitted :: "NextConfig \<Rightarrow> string \<Rightarrow> string \<Rightarrow> bool" where
  "remoteImagePermitted cfg proto host =
     list_ex (\<lambda>pat. matchRemotePattern pat proto host) (remotePatterns (images cfg))"

section \<open>The auth page of \<^verbatim>\<open>src/app/auth/page.tsx\<close>\<close>

text \<open>
  The page function takes no argument and reads nothing: it returns one fixed element tree.
  An element has a tag or component name, its props in source order and its children; a
  prop value is a string, a number, a style object or an element.
\<close>

datatype 'a propValue = Str string | Num int | Style "(string \<times> int) list" | Jsx 'a

datatype jsx = Element string "(string \<times> jsx propValue) list" "jsx list" | Text string

definition Auth :: jsx where
  "Auth =
     Element ''main'' [(''className'', Str ''bg-primary-13 h-[100dvh] flex flex-col '')]
      [ Element ''div'' [(''className'', Str ''w-full h-[65%]  overflow-clip'')]
          [ Element ''LandingCarouselTwo'' [] [] ],
        Element ''div''
          [ (''style'', Style [(''zIndex'', 1000)]),
            (''className'', Str ''h-[20%]  inset-x-0 mx-auto flex flex-col justify-center items-center w-[350px] max-w-[90%] sm:max-w-[80%] rounded-b-xl gap-4 shadow-lg'') ]
          [ Element ''Suspense''
              [ (''fallback'', Jsx (Element ''div''
                  [(''className'', Str ''px-6 py-3 bg-primary-13 text-primary-11 rounded-md flex justify-center items-center h-10 w-[276px] border-[1px] border-primary-9'')]
                  [Text ''Loading...''])) ]
              [ Element ''AuthBtn''
                  [ (''icon'', Jsx (Element ''GoogleIcon''
                      [(''color'', Str ''#C1C1C1''), (''width'', Num 21), (''height'', Num 20)] [])),
                    (''provider'', Str ''google'') ]
                  [Text ''Continue with Google''] ] ],
        Element ''div''
          [(''className'', Str ''flex-1 flex flex-col items-center  justify-center w-full borderColor-primary-10/50 '')]
          [ Element ''div''
              [(''className'', Str ''flex gap-9 justify-center py-3 px-6 max-h-14 borderColor-primary-10/50 border-[1px] rounded-[20px]'')]
              [ Element ''SocialLink''
                  [ (''icon'', Str ''/icons/linkedin.png''),
                    (''url'', Str ''https://www.linkedin.com/company/decenter-ai/'') ] [],
                Element ''SocialLink''
                  [ (''icon'', Str ''/icons/telegram.png''),
                    (''url'', Str ''https://t.me/decenteraicomchat'') ] [],
                Element ''SocialLink''
                  [ (''icon'', Str ''/icons/x.png''),
                    (''url'',
                       Str ''https://twitter.com/decenteraicom?s=21&t=th7q1ztmiuaE2PoODm3k0A'') ]
                  [] ] ] ]"

text \<open>The elements of a tree that carry a given name, in document order, children included.\<close>

fun elementsNamed :: "string \<Rightarrow> jsx \<Rightarrow> jsx list" where
  "elementsNamed t (Element tag props kids) =
     (if tag = t then [Element tag props kids] else []) @ concat (map (elementsNamed t) kids)"
| "elementsNamed t (Text s) = []"

text \<open>The string value of a prop, when the element has it.\<close>

fun propString :: "string \<Rightarrow> jsx \<Rightarrow> string option" where
  "propString key (Element tag props kids) =
     (case map_of props key of Some (Str v) \<Rightarrow> Some v | _ \<Rightarrow> None)"
| "propString key (Text s) = None"

text \<open>The targets of the page's social links: the \<^verbatim>\<open>url\<close> prop of every \<^verbatim>\<open>SocialLink\<close>.\<close>

definition socialLinkUrls :: "jsx \<Rightarrow> string option list" where
  "socialLinkUrls page = map (propString ''url'') (elementsNamed ''SocialLink'' page)"

section \<open>Properties of the redaction hook\<close>

subsection \<open>Deleting a property\<close>

lemma deleteKey_throws:
  "nonConfigurableOwn obj key \<Longrightarrow> deleteKey obj key = Inl TypeError"
  by (simp add: deleteKey_def)

lemma deleteKey_removes:
  "\<not> nonConfigurableOwn obj key \<Longrightarrow>
     deleteKey obj key = Inr (obj\<lparr>entries := (entries obj)(key := None)\<rparr>)"
  by (simp add: deleteKey_def)

lemma deleteKey_absent:
  assumes "entries obj key = None"
  shows "deleteKey obj key = Inr obj"
proof -
  from assms have "(entries obj)(key := None) = entries obj" by (simp add: fun_upd_idem)
  moreover from assms have "\<not> nonConfigurableOwn obj key" by (simp add: nonConfigurableOwn_def)
  ultimately show ?thesis by (simp add: deleteKey_def)
qed

lemma nonConfigurableOwn_after_delete:
  "other \<noteq> key \<Longrightarrow>
     nonConfigurableOwn (obj\<lparr>entries := (entries obj)(key := None)\<rparr>) other =
       nonConfigurableOwn obj other"
  by (simp add: nonConfigurableOwn_def)

subsection \<open>The paths of the hook\<close>

lemma beforeSend_without_headers:
  assumes "Option.bind (request event) headers = None"
  shows "beforeSend event = Inr event"
  using assms by (simp add: beforeSend_def)

lemma beforeSend_with_headers:
  assumes "request event = Some req" and "headers req = Some hdrs"
    and "\<not> nonConfigurableOwn hdrs ''Authorization''"
    and "\<not> nonConfigurableOwn hdrs ''Cookie''"
  shows "beforeSend event =
     Inr (event\<lparr>request := Some (req\<lparr>headers :=
            Some (hdrs\<lparr>entries := (entries hdrs)(''Authorization'' := None, ''Cookie'' := None)\<rparr>)\<rparr>)\<rparr>)"
proof -
  let ?h1 = "hdrs\<lparr>entries := (entries hdrs)(''Authorization'' := None)\<rparr>"
  have first: "deleteKey hdrs ''Authorization'' = Inr ?h1"
    using assms(3) by (rule deleteKey_removes)
  have "\<not> nonConfigurableOwn ?h1 ''Cookie''"
    using assms(4) by (simp add: nonConfigurableOwn_after_delete)
  then have "deleteKey ?h1 ''Cookie'' = Inr (?h1\<lparr>entries := (entries ?h1)(''Cookie'' := None)\<rparr>)"
    by (rule deleteKey_removes)
  then have second: "deleteKey ?h1 ''Cookie'' =
      Inr (hdrs\<lparr>entries := (entries hdrs)(''Authorization'' := None, ''Cookie'' := None)\<rparr>)"
    by simp
  show ?thesis
    using assms(1,2) by (simp add: beforeSend_def first second)
qed

lemma beforeSend_throws:
  assumes "request event = Some req" and "headers req = Some hdrs"
    and "nonConfigurableOwn hdrs ''Authorization'' \<or> nonConfigurableOwn hdrs ''Cookie''"
  shows "beforeSend event = Inl TypeError"
proof (cases "nonConfigurableOwn hdrs ''Authorization''")
  case True
  then have "deleteKey hdrs ''Authorization'' = Inl TypeError" by (rule deleteKey_throws)
  with assms(1,2) show ?thesis by (simp add: beforeSend_def)
next
  case False
  let ?h1 = "hdrs\<lparr>entries := (entries hdrs)(''Authorization'' := None)\<rparr>"
  from False have first: "deleteKey hdrs ''Authorization'' = Inr ?h1" by (rule deleteKey_removes)
  from False assms(3) have "nonConfigurableOwn hdrs ''Cookie''" by simp
  then have "nonConfigurableOwn ?h1 ''Cookie''" by (simp add: nonConfigurableOwn_after_delete)
  then have "deleteKey ?h1 ''Cookie'' = Inl TypeError" by (rule deleteKey_throws)
  with assms(1,2) first show ?thesis by (simp add: beforeSend_def)
qed

lemma fun_upd_two_twice:
  "(f(a := None, b := None))(a := None, b := None) = f(a := None, b := None)"
  by (rule ext) simp

subsection \<open>Redaction\<close>

text \<open>
  Claim C1, as stated, fails: at an event whose frozen request headers contain
  \<^verbatim>\<open>Authorization\<close>, the first deletion throws and the hook returns no event.
\<close>

theorem beforeSend_frozen_authorization_counterexample:
  "beforeSend \<lparr>request = Some \<lparr>headers = Some
       \<lparr>entries = [''Authorization'' \<mapsto> ''Bearer abc'', ''Accept'' \<mapsto> ''text/html''],
        nonConfigurable = UNIV\<rparr>\<rparr>\<rparr> = Inl TypeError"
  by (simp add: beforeSend_def deleteKey_def nonConfigurableOwn_def)

text \<open>
  Claim C1, amended. For an event that has request headers in which neither
  \<^verbatim>\<open>Authorization\<close> nor \<^verbatim>\<open>Cookie\<close> is a non-configurable own property, the hook returns an
  event whose request headers contain neither of the two names, and every other header name
  maps to the value it had in the input. This holds whether or not the two names were
  present, so in particular when one or both of them are present as ordinary properties.
\<close>

theorem beforeSend_redacts_headers:
  assumes "request event = Some req" and "headers req = Some hdrs"
    and "\<not> nonConfigurableOwn hdrs ''Authorization''"
    and "\<not> nonConfigurableOwn hdrs ''Cookie''"
  shows "\<exists>event' req' hdrs'.
           beforeSend event = Inr event' \<and> request event' = Some req' \<and>
           headers req' = Some hdrs' \<and>
           ''Authorization'' \<notin> dom (entries hdrs') \<and> ''Cookie'' \<notin> dom (entries hdrs') \<and>
           (\<forall>key. key \<noteq> ''Authorization'' \<and> key \<noteq> ''Cookie'' \<longrightarrow>
              entries hdrs' key = entries hdrs key)"
proof -
  let ?h = "hdrs\<lparr>entries := (entries hdrs)(''Authorization'' := None, ''Cookie'' := None)\<rparr>"
  let ?r = "req\<lparr>headers := Some ?h\<rparr>"
  have run: "beforeSend event = Inr (event\<lparr>request := Some ?r\<rparr>)"
    using assms by (rule beforeSend_with_headers)
  have gone: "''Authorization'' \<notin> dom (entries ?h) \<and> ''Cookie'' \<notin> dom (entries ?h)"
    by (simp add: dom_def)
  have kept: "\<forall>key. key \<noteq> ''Authorization'' \<and> key \<noteq> ''Cookie'' \<longrightarrow>
      entries ?h key = entries hdrs key"
    by simp
  from run gone kept show ?thesis by simp
qed

text \<open>The theorem at an ordinary header object that carries both names and a third header.\<close>

theorem beforeSend_redacts_headers_witness:
  "\<exists>event' req' hdrs'.
     beforeSend \<lparr>request = Some \<lparr>headers = Some
        \<lparr>entries = [''Authorization'' \<mapsto> ''Bearer abc'', ''Cookie'' \<mapsto> ''sid=1'',
                    ''Accept'' \<mapsto> ''text/html''],
         nonConfigurable = {}\<rparr>\<rparr>\<rparr> = Inr event' \<and>
     request event' = Some req' \<and> headers req' = Some hdrs' \<and>
     entries hdrs' ''Authorization'' = None \<and> entries hdrs' ''Cookie'' = None \<and>
     entries hdrs' ''Accept'' = Some ''text/html''"
proof -
  let ?hdrs = "\<lparr>entries = [''Authorization'' \<mapsto> ''Bearer abc'', ''Cookie'' \<mapsto> ''sid=1'',
                            ''Accept'' \<mapsto> ''text/html''],
                 nonConfigurable = {}\<rparr>"
  let ?req = "\<lparr>headers = Some ?hdrs\<rparr>"
  let ?event = "\<lparr>request = Some ?req\<rparr>"
  have r: "request ?event = Some ?req" by simp
  have h: "headers ?req = Some ?hdrs" by simp
  have a: "\<not> nonConfigurableOwn ?hdrs ''Authorization''" by (simp add: nonConfigurableOwn_def)
  have c: "\<not> nonConfigurableOwn ?hdrs ''Cookie''" by (simp add: nonConfigurableOwn_def)
  have "\<exists>event' req' hdrs'.
           beforeSend ?event = Inr event' \<and> request event' = Some req' \<and>
           headers req' = Some hdrs' \<and>
           ''Authorization'' \<notin> dom (entries hdrs') \<and> ''Cookie'' \<notin> dom (entries hdrs') \<and>
           (\<forall>key. key \<noteq> ''Authorization'' \<and> key \<noteq> ''Cookie'' \<longrightarrow>
              entries hdrs' key = entries ?hdrs key)"
    using r h a c by (rule beforeSend_redacts_headers)
  then obtain event' req' hdrs' where run: "beforeSend ?event = Inr event'"
    and req: "request event' = Some req'" and hdrs: "headers req' = Some hdrs'"
    and auth: "''Authorization'' \<notin> dom (entries hdrs')"
    and cookie: "''Cookie'' \<notin> dom (entries hdrs')"
    and kept: "\<forall>key. key \<noteq> ''Authorization'' \<and> key \<noteq> ''Cookie'' \<longrightarrow>
       entries hdrs' key = entries ?hdrs key"
    by (elim exE conjE)
  from kept have "''Accept'' \<noteq> ''Authorization'' \<and> ''Accept'' \<noteq> ''Cookie'' \<longrightarrow>
      entries hdrs' ''Accept'' = entries ?hdrs ''Accept''" by (rule spec)
  then have accept: "entries hdrs' ''Accept'' = Some ''text/html''" by simp
  from auth have a': "entries hdrs' ''Authorization'' = None" by (simp add: dom_def)
  from cookie have c': "entries hdrs' ''Cookie'' = None" by (simp add: dom_def)
  from run req hdrs a' c' accept show ?thesis by (intro exI conjI)
qed

subsection \<open>Events without request headers\<close>

text \<open>
  Claim C2. For an event that has no request headers, because the request is absent or
  because the request has no headers, the hook returns the event itself: the output
  equals the input, so every field of the output equals the same field of the input.
\<close>

theorem beforeSend_no_headers_unmodified:
  assumes "request event = None \<or> (\<exists>req. request event = Some req \<and> headers req = None)"
  shows "beforeSend event = Inr event"
proof (rule beforeSend_without_headers)
  from assms show "Option.bind (request event) headers = None" by auto
qed

text \<open>The theorem at an event without a request and at one whose request has no headers.\<close>

theorem beforeSend_no_headers_unmodified_witness:
  "beforeSend (\<lparr>request = None\<rparr> :: (unit, unit) event_scheme) = Inr \<lparr>request = None\<rparr> \<and>
   beforeSend \<lparr>request = Some \<lparr>headers = None\<rparr>\<rparr> = Inr \<lparr>request = Some \<lparr>headers = None\<rparr>\<rparr>"
proof
  show "beforeSend (\<lparr>request = None\<rparr> :: (unit, unit) event_scheme) = Inr \<lparr>request = None\<rparr>"
    by (rule beforeSend_no_headers_unmodified) simp
  show "beforeSend \<lparr>request = Some \<lparr>headers = None\<rparr>\<rparr> = Inr \<lparr>request = Some \<lparr>headers = None\<rparr>\<rparr>"
    by (rule beforeSend_no_headers_unmodified) simp
qed

subsection \<open>Idempotence\<close>

text \<open>
  Claim C8. The hook is idempotent: for every event, applying the hook and then applying
  it again to the event it returned gives the same result as applying it once. When the
  first application throws, there is no second one, and both sides are that exception.
\<close>

theorem beforeSend_idempotent:
  "andThen (beforeSend event) beforeSend = beforeSend event"
proof (cases "Option.bind (request event) headers")
  case None
  then have "beforeSend event = Inr event" by (rule beforeSend_without_headers)
  then show ?thesis by (simp add: andThen_def)
next
  case (Some hdrs)
  then obtain req where req: "request event = Some req" and hdrs: "headers req = Some hdrs"
    by (cases "request event") auto
  show ?thesis
  proof (cases "nonConfigurableOwn hdrs ''Authorization'' \<or> nonConfigurableOwn hdrs ''Cookie''")
    case True
    with req hdrs have "beforeSend event = Inl TypeError" by (rule beforeSend_throws)
    then show ?thesis by (simp add: andThen_def)
  next
    case False
    let ?h = "hdrs\<lparr>entries := (entries hdrs)(''Authorization'' := None, ''Cookie'' := None)\<rparr>"
    let ?r = "req\<lparr>headers := Some ?h\<rparr>"
    let ?e = "event\<lparr>request := Some ?r\<rparr>"
    from False have free: "\<not> nonConfigurableOwn hdrs ''Authorization''"
      "\<not> nonConfigurableOwn hdrs ''Cookie''" by simp_all
    have first: "beforeSend event = Inr ?e"
      using req hdrs free by (rule beforeSend_with_headers)
    have "beforeSend ?e = Inr (?e\<lparr>request := Some (?r\<lparr>headers :=
        Some (?h\<lparr>entries := (entries ?h)(''Authorization'' := None, ''Cookie'' := None)\<rparr>)\<rparr>)\<rparr>)"
      by (rule beforeSend_with_headers) (simp_all add: nonConfigurableOwn_def)
    then have second: "beforeSend ?e = Inr ?e"
      by (simp add: fun_upd_two_twice)
    from first second show ?thesis by (simp add: andThen_def)
  qed
qed

subsection \<open>When an event is returned\<close>

text \<open>
  Claim C9, as stated, fails: at an event whose request headers hold \<^verbatim>\<open>Cookie\<close> as a
  non-configurable property, the second deletion throws and the hook returns no event.
\<close>

theorem beforeSend_sealed_cookie_counterexample:
  "beforeSend \<lparr>request = Some \<lparr>headers = Some
       \<lparr>entries = [''Cookie'' \<mapsto> ''sid=1''], nonConfigurable = {''Cookie''}\<rparr>\<rparr>\<rparr> = Inl TypeError"
  by (simp add: beforeSend_def deleteKey_def nonConfigurableOwn_def)

text \<open>
  Claim C9, amended. For every event whose request headers, when it has any, hold neither
  \<^verbatim>\<open>Authorization\<close> nor \<^verbatim>\<open>Cookie\<close> as a non-configurable own property, the hook returns an
  event: it does not throw and there is no path that yields anything else. The returned
  event is sanitized: its request headers, when it has any, contain neither name.
\<close>

theorem beforeSend_returns_event:
  assumes "\<forall>req hdrs. request event = Some req \<and> headers req = Some hdrs \<longrightarrow>
      \<not> nonConfigurableOwn hdrs ''Authorization'' \<and> \<not> nonConfigurableOwn hdrs ''Cookie''"
  shows "\<exists>event'. beforeSend event = Inr event' \<and>
     (\<forall>req' hdrs'. request event' = Some req' \<and> headers req' = Some hdrs' \<longrightarrow>
        entries hdrs' ''Authorization'' = None \<and> entries hdrs' ''Cookie'' = None)"
proof (cases "Option.bind (request event) headers")
  case None
  then have run: "beforeSend event = Inr event" by (rule beforeSend_without_headers)
  from None have "\<forall>req' hdrs'. request event = Some req' \<and> headers req' = Some hdrs' \<longrightarrow>
        entries hdrs' ''Authorization'' = None \<and> entries hdrs' ''Cookie'' = None"
    by auto
  with run show ?thesis by simp
next
  case (Some hdrs)
  then obtain req where req: "request event = Some req" and hdrs: "headers req = Some hdrs"
    by (cases "request event") auto
  with assms have free: "\<not> nonConfigurableOwn hdrs ''Authorization''"
    "\<not> nonConfigurableOwn hdrs ''Cookie''" by simp_all
  have "beforeSend event =
     Inr (event\<lparr>request := Some (req\<lparr>headers :=
            Some (hdrs\<lparr>entries := (entries hdrs)(''Authorization'' := None, ''Cookie'' := None)\<rparr>)\<rparr>)\<rparr>)"
    using req hdrs free by (rule beforeSend_with_headers)
  then show ?thesis by simp
qed

text \<open>The theorem at an event without a request, and at one whose header object has a
  non-configurable property under another name.\<close>

theorem beforeSend_returns_event_witness:
  "(\<exists>event'. beforeSend (\<lparr>request = None\<rparr> :: (unit, unit) event_scheme) = Inr event') \<and>
   (\<exists>event'. beforeSend \<lparr>request = Some \<lparr>headers = Some
       \<lparr>entries = [''Cookie'' \<mapsto> ''sid=1'', ''Accept'' \<mapsto> ''text/html''],
        nonConfigurable = {''Accept''}\<rparr>\<rparr>\<rparr> = Inr event')"
proof
  let ?e1 = "\<lparr>request = None\<rparr> :: (unit, unit) event_scheme"
  have "\<exists>event'. beforeSend ?e1 = Inr event' \<and>
     (\<forall>req' hdrs'. request event' = Some req' \<and> headers req' = Some hdrs' \<longrightarrow>
        entries hdrs' ''Authorization'' = None \<and> entries hdrs' ''Cookie'' = None)"
    by (rule beforeSend_returns_event) simp
  then show "\<exists>event'. beforeSend ?e1 = Inr event'" by (elim exE conjE) (rule exI)
next
  let ?e2 = "\<lparr>request = Some \<lparr>headers = Some
       \<lparr>entries = [''Cookie'' \<mapsto> ''sid=1'', ''Accept'' \<mapsto> ''text/html''],
        nonConfigurable = {''Accept''}\<rparr>\<rparr>\<rparr>"
  have "\<exists>event'. beforeSend ?e2 = Inr event' \<and>
     (\<forall>req' hdrs'. request event' = Some req' \<and> headers req' = Some hdrs' \<longrightarrow>
        entries hdrs' ''Authorization'' = None \<and> entries hdrs' ''Cookie'' = None)"
    by (rule beforeSend_returns_event) (simp add: nonConfigurableOwn_def)
  then show "\<exists>event'. beforeSend ?e2 = Inr event'" by (elim exE conjE) (rule exI)
qed

section \<open>Properties of the build configuration\<close>

subsection \<open>Field values\<close>

lemma remotePatterns_nextConfig:
  "remotePatterns (images (nextConfig penv now)) =
     [ \<lparr> protocol = ''https'', hostname = ''gateway.mesh3.network'' \<rparr>,
       \<lparr> protocol = ''https'', hostname = ''gateway.lighthouse.storage'' \<rparr>,
       \<lparr> protocol = ''https'', hostname = ''assets.react-photo-album.com'' \<rparr>,
       \<lparr> protocol = ''https'', hostname = ''lh3.googleusercontent.com'' \<rparr>,
       \<lparr> protocol = ''https'', hostname = ''cdn.discordapp.com'' \<rparr>,
       \<lparr> protocol = ''https'', hostname = ''r2.unreal.art'' \<rparr>,
       \<lparr> protocol = ''https'', hostname = ''pub-bc2d2d9bc6fb490dbb380efd5781048d.r2.dev'' \<rparr> ]"
  by (simp add: nextConfig_def)

lemma hostnames_nextConfig:
  "map hostname (remotePatterns (images (nextConfig penv now))) =
     [''gateway.mesh3.network'', ''gateway.lighthouse.storage'',
      ''assets.react-photo-album.com'', ''lh3.googleusercontent.com'',
      ''cdn.discordapp.com'', ''r2.unreal.art'',
      ''pub-bc2d2d9bc6fb490dbb380efd5781048d.r2.dev'']"
  by (simp add: remotePatterns_nextConfig)

lemma env_nextConfig:
  "env (nextConfig penv now) =
     [ (''NEXT_PUBLIC_BUILD_VERSION'', ''1.0.0-'' @ numberToString now),
       (''NEXT_PUBLIC_R2_STORAGE_URL'', ''https://r2.unreal.art''),
       (''NEXT_PUBLIC_LIGHTHOUSE_GATE_WAY'', ''https://gateway.lighthouse.storage/ipfs/''),
       (''NEXT_PUBLIC_DEBUG'',
          if penv ''NODE_ENV'' = Some ''development'' then ''true'' else ''false'') ]"
  by (simp add: nextConfig_def)

lemma release_name_sentryWebpackPluginOptions:
  "name (release (sentryWebpackPluginOptions penv)) = penv ''NEXT_PUBLIC_BUILD_VERSION''"
  by (simp add: sentryWebpackPluginOptions_def)

text \<open>The build version is made from the clock reading, so it differs between two readings.\<close>

lemma build_version_follows_clock:
  "map_of (env (nextConfig penv 0)) ''NEXT_PUBLIC_BUILD_VERSION'' = Some ''1.0.0-0'' \<and>
   map_of (env (nextConfig penv 1)) ''NEXT_PUBLIC_BUILD_VERSION'' = Some ''1.0.0-1''"
  by (simp add: env_nextConfig numberToString_def natToString.simps digitChar_def)

subsection \<open>The remote-image allow-list\<close>

lemma not_listed_not_permitted:
  assumes "host \<notin> set (map hostname (remotePatterns (images cfg)))"
  shows "\<not> remoteImagePermitted cfg proto host"
proof
  assume "remoteImagePermitted cfg proto host"
  then obtain pat where "pat \<in> set (remotePatterns (images cfg))" "hostname pat = host"
    unfolding remoteImagePermitted_def matchRemotePattern_def list_ex_iff by blast
  then have "host \<in> hostname ` set (remotePatterns (images cfg))" by blast
  with assms show False by simp
qed

lemma listed_host_permitted:
  "remoteImagePermitted (nextConfig penv now) ''https'' ''r2.unreal.art''"
  by (simp add: remoteImagePermitted_def matchRemotePattern_def remotePatterns_nextConfig)

text \<open>
  Claim C3. The allow-list of remote images has exactly seven entries, every entry has the
  protocol \<^verbatim>\<open>https\<close>, the hostnames are the seven of the source, all different, and a
  remote image whose hostname is none of the seven is not permitted, whatever its protocol.
  This holds for every environment and clock reading.
\<close>

theorem remote_image_allow_list:
  "length (remotePatterns (images (nextConfig penv now))) = 7 \<and>
   (\<forall>pat \<in> set (remotePatterns (images (nextConfig penv now))). protocol pat = ''https'') \<and>
   map hostname (remotePatterns (images (nextConfig penv now))) =
     [''gateway.mesh3.network'', ''gateway.lighthouse.storage'',
      ''assets.react-photo-album.com'', ''lh3.googleusercontent.com'',
      ''cdn.discordapp.com'', ''r2.unreal.art'',
      ''pub-bc2d2d9bc6fb490dbb380efd5781048d.r2.dev''] \<and>
   distinct (map hostname (remotePatterns (images (nextConfig penv now)))) \<and>
   (\<forall>proto host.
      host \<notin> set [''gateway.mesh3.network'', ''gateway.lighthouse.storage'',
        ''assets.react-photo-album.com'', ''lh3.googleusercontent.com'',
        ''cdn.discordapp.com'', ''r2.unreal.art'',
        ''pub-bc2d2d9bc6fb490dbb380efd5781048d.r2.dev''] \<longrightarrow>
      \<not> remoteImagePermitted (nextConfig penv now) proto host)"
proof (intro conjI allI impI)
  show "length (remotePatterns (images (nextConfig penv now))) = 7"
    by (simp add: remotePatterns_nextConfig)
  show "\<forall>pat \<in> set (remotePatterns (images (nextConfig penv now))). protocol pat = ''https''"
    by (simp add: remotePatterns_nextConfig)
  show "map hostname (remotePatterns (images (nextConfig penv now))) =
     [''gateway.mesh3.network'', ''gateway.lighthouse.storage'',
      ''assets.react-photo-album.com'', ''lh3.googleusercontent.com'',
      ''cdn.discordapp.com'', ''r2.unreal.art'',
      ''pub-bc2d2d9bc6fb490dbb380efd5781048d.r2.dev'']"
    by (rule hostnames_nextConfig)
  show "distinct (map hostname (remotePatterns (images (nextConfig penv now))))"
    unfolding hostnames_nextConfig by simp
next
  fix proto host
  assume "host \<notin> set [''gateway.mesh3.network'', ''gateway.lighthouse.storage'',
        ''assets.react-photo-album.com'', ''lh3.googleusercontent.com'',
        ''cdn.discordapp.com'', ''r2.unreal.art'',
        ''pub-bc2d2d9bc6fb490dbb380efd5781048d.r2.dev'']"
  then have "host \<notin> set (map hostname (remotePatterns (images (nextConfig penv now))))"
    unfolding hostnames_nextConfig .
  then show "\<not> remoteImagePermitted (nextConfig penv now) proto host"
    by (rule not_listed_not_permitted)
qed

text \<open>The theorem at the empty environment and a host that is not listed.\<close>

theorem remote_image_allow_list_witness:
  "length (remotePatterns (images (nextConfig Map.empty 0))) = 7 \<and>
   protocol (hd (remotePatterns (images (nextConfig Map.empty 0)))) = ''https'' \<and>
   \<not> remoteImagePermitted (nextConfig Map.empty 0) ''https'' ''evil.example.com''"
proof -
  note inst = remote_image_allow_list [of Map.empty 0]
  from inst have len: "length (remotePatterns (images (nextConfig Map.empty 0))) = 7"
    by (elim conjE)
  from inst have all: "\<forall>pat \<in> set (remotePatterns (images (nextConfig Map.empty 0))).
      protocol pat = ''https''"
    by (elim conjE)
  from len have "hd (remotePatterns (images (nextConfig Map.empty 0)))
      \<in> set (remotePatterns (images (nextConfig Map.empty 0)))"
    by (intro hd_in_set) auto
  with all have first: "protocol (hd (remotePatterns (images (nextConfig Map.empty 0)))) = ''https''"
    by (rule bspec)
  from inst have "''evil.example.com'' \<notin> set [''gateway.mesh3.network'', ''gateway.lighthouse.storage'',
        ''assets.react-photo-album.com'', ''lh3.googleusercontent.com'',
        ''cdn.discordapp.com'', ''r2.unreal.art'',
        ''pub-bc2d2d9bc6fb490dbb380efd5781048d.r2.dev''] \<longrightarrow>
      \<not> remoteImagePermitted (nextConfig Map.empty 0) ''https'' ''evil.example.com''"
    by (elim conjE allE)
  then have "\<not> remoteImagePermitted (nextConfig Map.empty 0) ''https'' ''evil.example.com''"
    by simp
  with len first show ?thesis by (intro conjI)
qed

subsection \<open>The mobile build\<close>

text \<open>
  Claim C4. When \<^verbatim>\<open>BUILD_TARGET\<close> is \<^verbatim>\<open>mobile\<close>, the output mode is \<^verbatim>\<open>export\<close> and trailing
  slashes are on; for every other value of \<^verbatim>\<open>BUILD_TARGET\<close>, the unset variable included,
  the output mode is unset and trailing slashes are off.
\<close>

theorem mobile_build_output:
  "(penv ''BUILD_TARGET'' = Some ''mobile'' \<longrightarrow>
      output_opt (nextConfig penv now) = Some ''export'' \<and> trailingSlash (nextConfig penv now)) \<and>
   (penv ''BUILD_TARGET'' \<noteq> Some ''mobile'' \<longrightarrow>
      output_opt (nextConfig penv now) = None \<and> \<not> trailingSlash (nextConfig penv now))"
  by (simp add: nextConfig_def isMobileBuild_def)

text \<open>The theorem at \<^verbatim>\<open>mobile\<close>, at another value and at the unset variable.\<close>

theorem mobile_build_output_witness:
  "output_opt (nextConfig [''BUILD_TARGET'' \<mapsto> ''mobile''] 0) = Some ''export'' \<and>
   trailingSlash (nextConfig [''BUILD_TARGET'' \<mapsto> ''mobile''] 0) \<and>
   output_opt (nextConfig [''BUILD_TARGET'' \<mapsto> ''web''] 0) = None \<and>
   \<not> trailingSlash (nextConfig [''BUILD_TARGET'' \<mapsto> ''web''] 0) \<and>
   output_opt (nextConfig Map.empty 0) = None \<and>
   \<not> trailingSlash (nextConfig Map.empty 0)"
  using mobile_build_output [of "[''BUILD_TARGET'' \<mapsto> ''mobile'']" 0]
    mobile_build_output [of "[''BUILD_TARGET'' \<mapsto> ''web'']" 0]
    mobile_build_output [of Map.empty 0]
  by simp

subsection \<open>The debug flag\<close>

text \<open>
  Claim C10. The injected \<^verbatim>\<open>NEXT_PUBLIC_DEBUG\<close> is the string \<^verbatim>\<open>true\<close> exactly when
  \<^verbatim>\<open>NODE_ENV\<close> is \<^verbatim>\<open>development\<close>, and the string \<^verbatim>\<open>false\<close> for every other value of
  \<^verbatim>\<open>NODE_ENV\<close>, the unset variable included.
\<close>

theorem debug_flag:
  "map_of (env (nextConfig penv now)) ''NEXT_PUBLIC_DEBUG'' =
     Some (if penv ''NODE_ENV'' = Some ''development'' then ''true'' else ''false'')"
  by (simp add: env_nextConfig)

text \<open>The theorem at \<^verbatim>\<open>development\<close>, at \<^verbatim>\<open>production\<close> and at the unset variable.\<close>

theorem debug_flag_witness:
  "map_of (env (nextConfig [''NODE_ENV'' \<mapsto> ''development''] 0)) ''NEXT_PUBLIC_DEBUG'' = Some ''true'' \<and>
   map_of (env (nextConfig [''NODE_ENV'' \<mapsto> ''production''] 0)) ''NEXT_PUBLIC_DEBUG'' = Some ''false'' \<and>
   map_of (env (nextConfig Map.empty 0)) ''NEXT_PUBLIC_DEBUG'' = Some ''false''"
  using debug_flag [of "[''NODE_ENV'' \<mapsto> ''development'']" 0]
    debug_flag [of "[''NODE_ENV'' \<mapsto> ''production'']" 0]
    debug_flag [of Map.empty 0]
  by simp

subsection \<open>What the configuration depends on\<close>

lemma nextConfig_cong:
  assumes "penv1 ''BUILD_TARGET'' = penv2 ''BUILD_TARGET''"
    and "penv1 ''NODE_ENV'' = penv2 ''NODE_ENV''"
  shows "nextConfig penv1 now = nextConfig penv2 now"
  using assms by (simp add: nextConfig_def isMobileBuild_def)

lemma sentryWebpackPluginOptions_cong:
  assumes "penv1 ''NODE_ENV'' = penv2 ''NODE_ENV''"
    and "penv1 ''CI'' = penv2 ''CI''"
    and "penv1 ''NEXT_PUBLIC_BUILD_VERSION'' = penv2 ''NEXT_PUBLIC_BUILD_VERSION''"
  shows "sentryWebpackPluginOptions penv1 = sentryWebpackPluginOptions penv2"
  using assms by (simp add: sentryWebpackPluginOptions_def)

text \<open>
  Claim C7, as stated, fails: two environments that agree on \<^verbatim>\<open>BUILD_TARGET\<close>, \<^verbatim>\<open>NODE_ENV\<close>
  and \<^verbatim>\<open>CI\<close> and differ only on \<^verbatim>\<open>NEXT_PUBLIC_BUILD_VERSION\<close> give different configurations
  at the same clock reading, since the release name of the monitoring options is read from
  that variable.
\<close>

theorem exportedConfig_three_variables_counterexample:
  "Map.empty ''BUILD_TARGET'' = [''NEXT_PUBLIC_BUILD_VERSION'' \<mapsto> ''1.0.0-7''] ''BUILD_TARGET'' \<and>
   Map.empty ''NODE_ENV'' = [''NEXT_PUBLIC_BUILD_VERSION'' \<mapsto> ''1.0.0-7''] ''NODE_ENV'' \<and>
   Map.empty ''CI'' = [''NEXT_PUBLIC_BUILD_VERSION'' \<mapsto> ''1.0.0-7''] ''CI'' \<and>
   (exportedConfig Map.empty 0 :: NextConfig \<times> (unit, unit) SentryOptions) \<noteq>
     exportedConfig [''NEXT_PUBLIC_BUILD_VERSION'' \<mapsto> ''1.0.0-7''] 0"
proof -
  let ?penv = "[''NEXT_PUBLIC_BUILD_VERSION'' \<mapsto> ''1.0.0-7'']"
  have "(exportedConfig Map.empty 0 :: NextConfig \<times> (unit, unit) SentryOptions) \<noteq>
     exportedConfig ?penv 0"
  proof
    assume "(exportedConfig Map.empty 0 :: NextConfig \<times> (unit, unit) SentryOptions) =
      exportedConfig ?penv 0"
    then have "(sentryWebpackPluginOptions Map.empty :: (unit, unit) SentryOptions) =
      sentryWebpackPluginOptions ?penv"
      by (simp add: exportedConfig_def)
    then have "name (release (sentryWebpackPluginOptions Map.empty :: (unit, unit) SentryOptions)) =
      name (release (sentryWebpackPluginOptions ?penv :: (unit, unit) SentryOptions))"
      by simp
    then show False
      by (simp add: release_name_sentryWebpackPluginOptions)
  qed
  then show ?thesis by simp
qed

text \<open>
  Claim C7, amended. The configuration depends only on the environment variables
  \<^verbatim>\<open>BUILD_TARGET\<close>, \<^verbatim>\<open>NODE_ENV\<close>, \<^verbatim>\<open>CI\<close> and \<^verbatim>\<open>NEXT_PUBLIC_BUILD_VERSION\<close> and on the clock
  reading: two environments that agree on these four variables give the same configuration
  at the same clock reading, and the names injected into the client bundle are exactly
  \<^verbatim>\<open>NEXT_PUBLIC_BUILD_VERSION\<close>, \<^verbatim>\<open>NEXT_PUBLIC_R2_STORAGE_URL\<close>,
  \<^verbatim>\<open>NEXT_PUBLIC_LIGHTHOUSE_GATE_WAY\<close> and \<^verbatim>\<open>NEXT_PUBLIC_DEBUG\<close>.
\<close>

theorem exportedConfig_depends_on:
  assumes "penv1 ''BUILD_TARGET'' = penv2 ''BUILD_TARGET''"
    and "penv1 ''NODE_ENV'' = penv2 ''NODE_ENV''"
    and "penv1 ''CI'' = penv2 ''CI''"
    and "penv1 ''NEXT_PUBLIC_BUILD_VERSION'' = penv2 ''NEXT_PUBLIC_BUILD_VERSION''"
  shows "exportedConfig penv1 now = exportedConfig penv2 now \<and>
     clientInjections (nextConfig penv1 now) =
       [''NEXT_PUBLIC_BUILD_VERSION'', ''NEXT_PUBLIC_R2_STORAGE_URL'',
        ''NEXT_PUBLIC_LIGHTHOUSE_GATE_WAY'', ''NEXT_PUBLIC_DEBUG'']"
proof
  have "nextConfig penv1 now = nextConfig penv2 now"
    using assms(1,2) by (rule nextConfig_cong)
  moreover have "sentryWebpackPluginOptions penv1 = sentryWebpackPluginOptions penv2"
    using assms(2,3,4) by (rule sentryWebpackPluginOptions_cong)
  ultimately show "exportedConfig penv1 now = exportedConfig penv2 now"
    by (simp add: exportedConfig_def)
  show "clientInjections (nextConfig penv1 now) =
       [''NEXT_PUBLIC_BUILD_VERSION'', ''NEXT_PUBLIC_R2_STORAGE_URL'',
        ''NEXT_PUBLIC_LIGHTHOUSE_GATE_WAY'', ''NEXT_PUBLIC_DEBUG'']"
    by (simp add: clientInjections_def env_nextConfig)
qed

text \<open>The theorem at two environments that differ on a variable the module never reads.\<close>

theorem exportedConfig_depends_on_witness:
  "(exportedConfig [''NODE_ENV'' \<mapsto> ''production'', ''HOME'' \<mapsto> ''/root''] 1730000000000
      :: NextConfig \<times> (unit, unit) SentryOptions) =
     exportedConfig [''NODE_ENV'' \<mapsto> ''production'', ''HOME'' \<mapsto> ''/home/ci''] 1730000000000 \<and>
   clientInjections (nextConfig [''NODE_ENV'' \<mapsto> ''production'', ''HOME'' \<mapsto> ''/root''] 1730000000000) =
       [''NEXT_PUBLIC_BUILD_VERSION'', ''NEXT_PUBLIC_R2_STORAGE_URL'',
        ''NEXT_PUBLIC_LIGHTHOUSE_GATE_WAY'', ''NEXT_PUBLIC_DEBUG'']"
  by (rule exportedConfig_depends_on) simp_all

section \<open>Properties of the auth page\<close>

text \<open>
  The sign-in region holds one \<^verbatim>\<open>Suspense\<close> boundary, whose fallback is the placeholder
  with the text \<^verbatim>\<open>Loading...\<close> and whose only child is the provider button. Which of the
  two is on screen at a given moment is decided by the rendering library, not by the page.
\<close>

lemma signin_region_boundary:
  "elementsNamed ''Suspense'' Auth =
     [ Element ''Suspense''
         [ (''fallback'', Jsx (Element ''div''
             [(''className'', Str ''px-6 py-3 bg-primary-13 text-primary-11 rounded-md flex justify-center items-center h-10 w-[276px] border-[1px] border-primary-9'')]
             [Text ''Loading...''])) ]
         [ Element ''AuthBtn''
             [ (''icon'', Jsx (Element ''GoogleIcon''
                 [(''color'', Str ''#C1C1C1''), (''width'', Num 21), (''height'', Num 20)] [])),
               (''provider'', Str ''google'') ]
             [Text ''Continue with Google''] ] ]"
  by (simp add: Auth_def)

text \<open>
  Claim C6. The page holds exactly three social links, and their targets are the three
  fixed URLs of the source: the LinkedIn company page, the Telegram chat and the Twitter
  profile. The page is a constant, so the links depend on no input and no environment.
\<close>

theorem social_links:
  "socialLinkUrls Auth =
     [Some ''https://www.linkedin.com/company/decenter-ai/'',
      Some ''https://t.me/decenteraicomchat'',
      Some ''https://twitter.com/decenteraicom?s=21&t=th7q1ztmiuaE2PoODm3k0A''] \<and>
   length (elementsNamed ''SocialLink'' Auth) = 3"
  by (simp add: socialLinkUrls_def Auth_def)

end
